theory Spec2Isabelle
  imports Main "HOL-Library.Word"
begin

section \<open>The donation contract: data model\<close>

text \<open>
  A shallow embedding of \<^verbatim>\<open>src/donate/assembly/index.ts\<close>, the \<^verbatim>\<open>Contract\<close> class of
  a NEAR donation account. Amounts are \<^verbatim>\<open>u128\<close> values of the SDK: 128-bit unsigned
  integers whose \<^verbatim>\<open>u128.add\<close> aborts when the sum does not fit in 128 bits and whose
  \<^verbatim>\<open>u128.div\<close> aborts on a zero divisor. The contract calls \<^verbatim>\<open>u128.sub\<close> only after it
  has established that the subtrahend does not exceed the minuend. Block timestamps are
  \<^verbatim>\<open>u64\<close>, promise statuses \<^verbatim>\<open>i32\<close>.
\<close>

type_synonym u128 = "128 word"
type_synonym u64 = "64 word"
type_synonym i32 = "32 word"
type_synonym AccountId = string
type_synonym Amount = u128

text \<open>
  Modelled from the spec: the class \<^verbatim>\<open>Donation\<close> of \<^verbatim>\<open>./models\<close>, which is not among the
  sources. The contract builds it as \<^verbatim>\<open>new Donation(context.predecessor, amount,
  context.blockTimestamp)\<close>; the spec names the three fields donor, amount and timestamp.
\<close>

datatype Donation =
  Donation (donation_donor: AccountId) (donation_amount: Amount) (donation_timestamp: u64)

text \<open>The part of the host's \<^verbatim>\<open>context\<close> that the contract reads, one per invocation.\<close>

record Context =
  attachedDeposit :: u128
  predecessor :: AccountId
  contractName :: AccountId
  blockTimestamp :: u64

text \<open>
  Contract storage: the slot under key \<^verbatim>\<open>"o"\<close> (owner), the slot under key \<^verbatim>\<open>"b"\<close>
  (balance), both possibly absent, and the \<^verbatim>\<open>PersistentSet<Donation>\<close> under prefix
  \<^verbatim>\<open>"d"\<close>, kept as the list of its elements in insertion order.
\<close>

record Contract =
  stored_owner :: "AccountId option"
  stored_balance :: "u128 option"
  donations :: "Donation list"

text \<open>
  The constants imported from \<^verbatim>\<open>../../utils\<close> and the SDK's account-id check are not
  among the sources; they are parameters of the model.
\<close>

record Env =
  MIN_ACCOUNT_BALANCE :: u128
  MIN_DONATION_AMOUNT :: u128
  MIN_WITHDRAWAL_AMOUNT :: u128
  PLATFORM_FEE_DIVISOR :: u128
  XCC_GAS :: u64
  isValidAccountID :: "AccountId \<Rightarrow> bool"

text \<open>One entry of \<^verbatim>\<open>ContractPromise.getResults()\<close>.\<close>

record ContractPromiseResult =
  status :: i32
  buffer :: "8 word list"

text \<open>
  Every failed \<^verbatim>\<open>assert\<close> and every trap aborts the invocation; the host then discards
  whatever the invocation wrote.
\<close>

datatype error =
    AlreadyInitialized
  | InsufficientAccountBalance
  | InvalidOwnerAccount
  | NotInitialized
  | BelowMinimumDonation
  | NotOwner
  | BelowMinimumWithdrawal
  | InsufficientDonationBalance
  | MissingStorageKey
  | DivisionByZero
  | Overflow
  | IndexOutOfRange

text \<open>Log lines; the two that print an amount keep the amount itself.\<close>

datatype log_line =
    LogText string
  | LogDonationReceived Amount
  | LogDonationsWithdrawn Amount
  | LogUnexpectedStatus i32

text \<open>
  Scheduled promises: \<^verbatim>\<open>ContractPromiseBatch.create(receiver)\<close> followed by one action,
  and \<^verbatim>\<open>.then(receiver)\<close> followed by one action. A chain is the list of its batches in
  order, each running once the one before it has settled.
\<close>

datatype call_args = EmptyArgs | DonationSentArgs Amount | DonationsWithdrawnArgs Amount

datatype promise_action =
    FunctionCall string call_args u128 u64
  | Transfer u128

type_synonym promise_chain = "(AccountId \<times> promise_action) list"

type_synonym 'a outcome = "error + 'a"

type_synonym effect = "Contract \<times> log_line list \<times> promise_chain"

section \<open>The contract's methods\<close>

text \<open>\<^verbatim>\<open>u128.add\<close>: the sum, or an abort when it would reach \<open>2 ^ 128\<close>.\<close>

definition u128_add :: "u128 \<Rightarrow> u128 \<Rightarrow> u128 outcome" where
  "u128_add a b = (if unat a + unat b < 2 ^ 128 then Inr (a + b) else Inl Overflow)"

text \<open>\<^verbatim>\<open>PersistentSet.add\<close>: an element already present is not stored again.\<close>

definition PersistentSet_add :: "'a \<Rightarrow> 'a list \<Rightarrow> 'a list" where
  "PersistentSet_add item xs = (if item \<in> set xs then xs else xs @ [item])"

definition is_initialized :: "Contract \<Rightarrow> bool" where
  "is_initialized s \<longleftrightarrow> stored_owner s \<noteq> None \<and> stored_balance s \<noteq> None"

definition is_owner :: "Context \<Rightarrow> Contract \<Rightarrow> bool" where
  "is_owner ctx s \<longleftrightarrow> stored_owner s = Some (predecessor ctx)"

definition init :: "Env \<Rightarrow> Context \<Rightarrow> AccountId \<Rightarrow> Contract \<Rightarrow> effect outcome" where
  "init env ctx owner s =
     (if is_initialized s then Inl AlreadyInitialized
      else if \<not> MIN_ACCOUNT_BALANCE env \<le> attachedDeposit ctx then Inl InsufficientAccountBalance
      else if \<not> isValidAccountID env owner then Inl InvalidOwnerAccount
      else Inr (s\<lparr>stored_owner := Some owner, stored_balance := Some 0\<rparr>,
                [LogText ''donation account was created''], []))"

text \<open>\<^verbatim>\<open>String.split\<close> on one separator character and \<^verbatim>\<open>Array.join\<close>.\<close>

fun split_on :: "char \<Rightarrow> string \<Rightarrow> string list" where
  "split_on c [] = [[]]"
| "split_on c (x # xs) =
     (if x = c then [] # split_on c xs
      else (case split_on c xs of
              [] \<Rightarrow> [[x]]
            | w # ws \<Rightarrow> (x # w) # ws))"

fun join_with :: "char \<Rightarrow> string list \<Rightarrow> string" where
  "join_with c [] = []"
| "join_with c [w] = w"
| "join_with c (w # ws) = w @ c # join_with c ws"

text \<open>\<^verbatim>\<open>splice(1)\<close> returns the elements it removes: all but the first.\<close>

definition get_factory :: "Context \<Rightarrow> AccountId" where
  "get_factory ctx = join_with (CHR ''.'') (drop 1 (split_on (CHR ''.'') (contractName ctx)))"

definition send_donation :: "Env \<Rightarrow> Context \<Rightarrow> Contract \<Rightarrow> effect outcome" where
  "send_donation env ctx s =
     (if \<not> is_initialized s then Inl NotInitialized
      else if \<not> MIN_DONATION_AMOUNT env \<le> attachedDeposit ctx then Inl BelowMinimumDonation
      else if PLATFORM_FEE_DIVISOR env = 0 then Inl DivisionByZero
      else
        let feeAmount = attachedDeposit ctx div PLATFORM_FEE_DIVISOR env;
            donationAmount = attachedDeposit ctx - feeAmount
        in Inr (s, [],
                [(get_factory ctx, FunctionCall ''deposit_fees'' EmptyArgs feeAmount (XCC_GAS env)),
                 (contractName ctx,
                  FunctionCall ''on_donation_sent'' (DonationSentArgs donationAmount) 0 (XCC_GAS env))]))"

definition get_balance :: "Contract \<Rightarrow> Amount outcome" where
  "get_balance s =
     (if \<not> is_initialized s then Inl NotInitialized
      else (case stored_balance s of None \<Rightarrow> Inl MissingStorageKey | Some b \<Rightarrow> Inr b))"

definition get_owner :: "Contract \<Rightarrow> AccountId outcome" where
  "get_owner s =
     (if \<not> is_initialized s then Inl NotInitialized
      else (case stored_owner s of None \<Rightarrow> Inl MissingStorageKey | Some a \<Rightarrow> Inr a))"

definition get_donations :: "Contract \<Rightarrow> Donation list outcome" where
  "get_donations s = (if \<not> is_initialized s then Inl NotInitialized else Inr (donations s))"

definition on_donation_sent ::
  "Context \<Rightarrow> Amount \<Rightarrow> ContractPromiseResult list \<Rightarrow> Contract \<Rightarrow> effect outcome" where
  "on_donation_sent ctx amount results s =
     (case results of
        [] \<Rightarrow> Inl IndexOutOfRange
      | donate # _ \<Rightarrow>
          if status donate = 0 then Inr (s, [LogText ''Donation is pending''], [])
          else if status donate = 1 then
            (case get_balance s of
               Inl e \<Rightarrow> Inl e
             | Inr b \<Rightarrow>
                 (case u128_add b amount of
                    Inl e \<Rightarrow> Inl e
                  | Inr new_balance \<Rightarrow>
                      Inr (s\<lparr>stored_balance := Some new_balance,
                             donations :=
                               PersistentSet_add
                                 (Donation (predecessor ctx) amount (blockTimestamp ctx))
                                 (donations s)\<rparr>,
                           [LogDonationReceived amount], [])))
          else if status donate = 2 then Inr (s, [LogText ''Donation failed''], [])
          else Inr (s, [LogUnexpectedStatus (status donate)], []))"

definition withdraw_donations :: "Env \<Rightarrow> Context \<Rightarrow> Amount \<Rightarrow> Contract \<Rightarrow> effect outcome" where
  "withdraw_donations env ctx amount s =
     (if \<not> is_initialized s then Inl NotInitialized
      else if \<not> is_owner ctx s then Inl NotOwner
      else if \<not> MIN_WITHDRAWAL_AMOUNT env \<le> amount then Inl BelowMinimumWithdrawal
      else (case stored_balance s of
              None \<Rightarrow> Inl MissingStorageKey
            | Some balance \<Rightarrow>
                if \<not> amount \<le> balance then Inl InsufficientDonationBalance
                else Inr (s\<lparr>stored_balance := Some (balance - amount)\<rparr>, [],
                          [(predecessor ctx, Transfer amount),
                           (contractName ctx,
                            FunctionCall ''on_donations_withdrawn'' (DonationsWithdrawnArgs amount) 0
                              (XCC_GAS env))])))"

definition on_donations_withdrawn ::
  "Context \<Rightarrow> Amount \<Rightarrow> ContractPromiseResult list \<Rightarrow> Contract \<Rightarrow> effect outcome" where
  "on_donations_withdrawn ctx amount results s =
     (case results of
        [] \<Rightarrow> Inl IndexOutOfRange
      | donationsWithdrawn # _ \<Rightarrow>
          if status donationsWithdrawn = 0 then
            Inr (s, [LogText ''Donation withdrawal is pending''], [])
          else if status donationsWithdrawn = 1 then
            Inr (s, [LogDonationsWithdrawn amount], [])
          else if status donationsWithdrawn = 2 then
            (case get_balance s of
               Inl e \<Rightarrow> Inl e
             | Inr b \<Rightarrow>
                 (case u128_add b amount of
                    Inl e \<Rightarrow> Inl e
                  | Inr new_balance \<Rightarrow>
                      Inr (s\<lparr>stored_balance := Some new_balance\<rparr>,
                           [LogText ''Donation withdrawal failed''], [])))
          else Inr (s, [LogUnexpectedStatus (status donationsWithdrawn)], []))"

section \<open>Invocations and their effect on storage\<close>

text \<open>
  The state-changing entry points, each with the context of its invocation; the callbacks
  also with the promise results the host hands them.
\<close>

datatype invocation =
    Init Context AccountId
  | SendDonation Context
  | OnDonationSent Context Amount "ContractPromiseResult list"
  | WithdrawDonations Context Amount
  | OnDonationsWithdrawn Context Amount "ContractPromiseResult list"

fun invoke :: "Env \<Rightarrow> invocation \<Rightarrow> Contract \<Rightarrow> effect outcome" where
  "invoke env (Init ctx owner) s = init env ctx owner s"
| "invoke env (SendDonation ctx) s = send_donation env ctx s"
| "invoke env (OnDonationSent ctx amount results) s = on_donation_sent ctx amount results s"
| "invoke env (WithdrawDonations ctx amount) s = withdraw_donations env ctx amount s"
| "invoke env (OnDonationsWithdrawn ctx amount results) s =
     on_donations_withdrawn ctx amount results s"

text \<open>Storage after an invocation: what it wrote if it returned, the old storage if it aborted.\<close>

fun storage_after :: "Contract \<Rightarrow> effect outcome \<Rightarrow> Contract" where
  "storage_after s (Inl e) = s"
| "storage_after s (Inr (s', logs, promises)) = s'"

fun run :: "Env \<Rightarrow> invocation list \<Rightarrow> Contract \<Rightarrow> Contract" where
  "run env [] s = s"
| "run env (c # cs) s = run env cs (storage_after s (invoke env c s))"

text \<open>Storage of a freshly deployed contract.\<close>

definition empty_storage :: Contract where
  "empty_storage = \<lparr>stored_owner = None, stored_balance = None, donations = []\<rparr>"

section \<open>Concrete inputs\<close>

text \<open>
  Values used to run the model: thresholds of 3, 1 and 1 NEAR (in yoctoNEAR, as the
  assertion messages say), a fee of one hundredth, and a contract \<^verbatim>\<open>bob.donate.near\<close>
  owned by \<^verbatim>\<open>bob.near\<close>.
\<close>

definition example_env :: Env where
  "example_env =
     \<lparr>MIN_ACCOUNT_BALANCE = 3000000000000000000000000,
      MIN_DONATION_AMOUNT = 1000000000000000000000000,
      MIN_WITHDRAWAL_AMOUNT = 1000000000000000000000000,
      PLATFORM_FEE_DIVISOR = 100,
      XCC_GAS = 20000000000000,
      isValidAccountID = (\<lambda>a. 2 \<le> length a \<and> length a \<le> 64)\<rparr>"

definition deploy_ctx :: Context where
  "deploy_ctx =
     \<lparr>attachedDeposit = 3000000000000000000000000, predecessor = ''donate.near'',
      contractName = ''bob.donate.near'', blockTimestamp = 50\<rparr>"

definition alice_ctx :: Context where
  "alice_ctx =
     \<lparr>attachedDeposit = 1000000000000000000000000, predecessor = ''alice.near'',
      contractName = ''bob.donate.near'', blockTimestamp = 100\<rparr>"

text \<open>A callback scheduled by the contract on itself: the contract is its own predecessor.\<close>

definition callback_ctx :: Context where
  "callback_ctx =
     \<lparr>attachedDeposit = 0, predecessor = ''bob.donate.near'',
      contractName = ''bob.donate.near'', blockTimestamp = 101\<rparr>"

definition owner_ctx :: Context where
  "owner_ctx =
     \<lparr>attachedDeposit = 0, predecessor = ''bob.near'',
      contractName = ''bob.donate.near'', blockTimestamp = 200\<rparr>"

definition mallory_ctx :: Context where
  "mallory_ctx =
     \<lparr>attachedDeposit = 0, predecessor = ''mallory.near'',
      contractName = ''bob.donate.near'', blockTimestamp = 300\<rparr>"

definition pending_result :: ContractPromiseResult where
  "pending_result = \<lparr>status = 0, buffer = []\<rparr>"

definition success_result :: ContractPromiseResult where
  "success_result = \<lparr>status = 1, buffer = []\<rparr>"

definition failure_result :: ContractPromiseResult where
  "failure_result = \<lparr>status = 2, buffer = []\<rparr>"

definition fresh_storage :: Contract where
  "fresh_storage = \<lparr>stored_owner = Some ''bob.near'', stored_balance = Some 0, donations = []\<rparr>"

definition funded_storage :: Contract where
  "funded_storage =
     \<lparr>stored_owner = Some ''bob.near'', stored_balance = Some 5000000000000000000000000,
      donations = [Donation ''bob.donate.near'' 5000000000000000000000000 90]\<rparr>"

section \<open>Basic facts\<close>

lemma unat_sub_le: "(a::u128) \<le> b \<Longrightarrow> unat (b - a) = unat b - unat a"
  by (simp add: unat_sub)

lemma fee_le: "(d::u128) div k \<le> d"
  by (simp add: word_le_nat_alt unat_div)

lemma unat_add_u128_exact: "unat (a::u128) + unat b < 2 ^ 128 \<Longrightarrow> unat (a + b) = unat a + unat b"
  by (simp add: unat_word_ariths)

lemma u128_add_fits: "unat a + unat b < 2 ^ 128 \<Longrightarrow> u128_add a b = Inr (a + b)"
  by (simp add: u128_add_def)

lemma u128_add_overflow: "\<not> unat a + unat b < 2 ^ 128 \<Longrightarrow> u128_add a b = Inl Overflow"
  by (simp add: u128_add_def)

lemma u128_add_Inr: "u128_add a b = Inr c \<Longrightarrow> c = a + b \<and> unat c = unat a + unat b"
  by (auto simp: u128_add_def unat_add_u128_exact split: if_splits)

lemma invoke_initialized:
  "is_initialized s \<Longrightarrow> is_initialized (storage_after s (invoke env c s))"
  by (cases c)
     (auto simp: init_def send_donation_def on_donation_sent_def withdraw_donations_def
        on_donations_withdrawn_def get_balance_def is_initialized_def Let_def u128_add_def
        split: list.splits option.splits)

lemma run_initialized: "is_initialized s \<Longrightarrow> is_initialized (run env cs s)"
  by (induction cs arbitrary: s) (simp_all add: invoke_initialized)

lemma invoke_distinct:
  "distinct (donations s) \<Longrightarrow> distinct (donations (storage_after s (invoke env c s)))"
  by (cases c)
     (auto simp: init_def send_donation_def on_donation_sent_def withdraw_donations_def
        on_donations_withdrawn_def get_balance_def Let_def PersistentSet_add_def u128_add_def
        split: list.splits option.splits)

lemma invoke_keeps_donation:
  "d \<in> set (donations s) \<Longrightarrow> d \<in> set (donations (storage_after s (invoke env c s)))"
  by (cases c)
     (auto simp: init_def send_donation_def on_donation_sent_def withdraw_donations_def
        on_donations_withdrawn_def get_balance_def Let_def PersistentSet_add_def u128_add_def
        split: list.splits option.splits)

lemma run_distinct: "distinct (donations s) \<Longrightarrow> distinct (donations (run env cs s))"
  by (induction cs arbitrary: s) (simp_all add: invoke_distinct)

lemma run_keeps_donation: "d \<in> set (donations s) \<Longrightarrow> d \<in> set (donations (run env cs s))"
  by (induction cs arbitrary: s) (simp_all add: invoke_keeps_donation)

lemma count_list_distinct: "distinct xs \<Longrightarrow> x \<in> set xs \<Longrightarrow> count_list xs x = 1"
  by (induction xs) (auto simp: count_list_0_iff)

text \<open>No invocation leaves a balance slot without an owner slot.\<close>

lemma invoke_balance_has_owner:
  "(stored_balance s \<noteq> None \<longrightarrow> stored_owner s \<noteq> None) \<Longrightarrow>
   stored_balance (storage_after s (invoke env c s)) \<noteq> None \<longrightarrow>
   stored_owner (storage_after s (invoke env c s)) \<noteq> None"
  by (cases c)
     (auto simp: init_def send_donation_def on_donation_sent_def withdraw_donations_def
        on_donations_withdrawn_def get_balance_def is_initialized_def Let_def u128_add_def
        split: list.splits option.splits)

lemma run_balance_has_owner:
  "(stored_balance s \<noteq> None \<longrightarrow> stored_owner s \<noteq> None) \<Longrightarrow>
   stored_balance (run env cs s) \<noteq> None \<longrightarrow> stored_owner (run env cs s) \<noteq> None"
proof (induction cs arbitrary: s)
  case Nil
  then show ?case by simp
next
  case (Cons c cs)
  have "stored_balance (storage_after s (invoke env c s)) \<noteq> None \<longrightarrow>
        stored_owner (storage_after s (invoke env c s)) \<noteq> None"
    using Cons.prems by (rule invoke_balance_has_owner)
  then show ?case using Cons.IH by simp
qed

lemma reachable_balance_initialized:
  "stored_balance (run env cs empty_storage) = Some b \<Longrightarrow> is_initialized (run env cs empty_storage)"
  using run_balance_has_owner [of empty_storage env cs]
  by (simp add: empty_storage_def is_initialized_def)

lemma on_donation_sent_credit:
  assumes "stored_owner s \<noteq> None" and "stored_balance s = Some b" and "status r = 1"
    and "unat b + unat amount < 2 ^ 128"
  shows "on_donation_sent ctx amount (r # rs) s =
     Inr (s\<lparr>stored_balance := Some (b + amount),
            donations := PersistentSet_add (Donation (predecessor ctx) amount (blockTimestamp ctx))
                           (donations s)\<rparr>,
          [LogDonationReceived amount], [])"
  using assms by (simp add: on_donation_sent_def get_balance_def is_initialized_def u128_add_def)

lemma on_donation_sent_overflow:
  assumes "stored_owner s \<noteq> None" and "stored_balance s = Some b" and "status r = 1"
    and "\<not> unat b + unat amount < 2 ^ 128"
  shows "on_donation_sent ctx amount (r # rs) s = Inl Overflow"
  using assms by (simp add: on_donation_sent_def get_balance_def is_initialized_def u128_add_def)

lemma on_donations_withdrawn_refund:
  assumes "stored_owner s \<noteq> None" and "stored_balance s = Some b" and "status r = 2"
    and "unat b + unat amount < 2 ^ 128"
  shows "on_donations_withdrawn ctx amount (r # rs) s =
     Inr (s\<lparr>stored_balance := Some (b + amount)\<rparr>, [LogText ''Donation withdrawal failed''], [])"
  using assms
  by (simp add: on_donations_withdrawn_def get_balance_def is_initialized_def u128_add_def)

lemma on_donations_withdrawn_overflow:
  assumes "stored_owner s \<noteq> None" and "stored_balance s = Some b" and "status r = 2"
    and "\<not> unat b + unat amount < 2 ^ 128"
  shows "on_donations_withdrawn ctx amount (r # rs) s = Inl Overflow"
  using assms
  by (simp add: on_donations_withdrawn_def get_balance_def is_initialized_def u128_add_def)

text \<open>A callback aborts or returns; when it returns, the collection is the old one or the
  old one with the record added.\<close>

lemma on_donation_sent_donations:
  "donations (storage_after s (on_donation_sent ctx amount results s)) = donations s
   \<or> donations (storage_after s (on_donation_sent ctx amount results s)) =
       PersistentSet_add (Donation (predecessor ctx) amount (blockTimestamp ctx)) (donations s)"
  by (cases results)
     (auto simp: on_donation_sent_def get_balance_def u128_add_def split: option.splits)

lemma fresh_initialized: "is_initialized fresh_storage"
  by (simp add: is_initialized_def fresh_storage_def)

lemma funded_initialized: "is_initialized funded_storage"
  by (simp add: is_initialized_def funded_storage_def)

lemma alice_deposit_ok: "MIN_DONATION_AMOUNT example_env \<le> attachedDeposit alice_ctx"
  by (simp add: example_env_def alice_ctx_def)

lemma example_divisor: "PLATFORM_FEE_DIVISOR example_env \<noteq> 0"
  by (simp add: example_env_def)

section \<open>The claims\<close>

text \<open>
  C1 at its failing input. \<^verbatim>\<open>alice.near\<close> donates 1 NEAR at block time 100 and
  \<^verbatim>\<open>send_donation\<close> schedules the callback with the net amount, addressed to the contract
  itself. The callback therefore runs with the contract as its predecessor, here at block
  time 101 and with status 1 (success). It credits the net amount and stores one record,
  whose donor is \<^verbatim>\<open>bob.donate.near\<close> and whose timestamp is 101: the predecessor and block
  time of the callback, not the caller and block time of \<^verbatim>\<open>send_donation\<close> that the
  claim names.
\<close>

theorem donation_flow_records_callback_context:
  "send_donation example_env alice_ctx fresh_storage =
     Inr (fresh_storage, [],
          [(''donate.near'',
            FunctionCall ''deposit_fees'' EmptyArgs 10000000000000000000000 20000000000000),
           (''bob.donate.near'',
            FunctionCall ''on_donation_sent'' (DonationSentArgs 990000000000000000000000) 0
              20000000000000)])
   \<and> predecessor alice_ctx = ''alice.near'' \<and> blockTimestamp alice_ctx = 100
   \<and> predecessor callback_ctx = contractName alice_ctx
   \<and> on_donation_sent callback_ctx 990000000000000000000000 [success_result] fresh_storage =
     Inr (\<lparr>stored_owner = Some ''bob.near'', stored_balance = Some 990000000000000000000000,
           donations = [Donation ''bob.donate.near'' 990000000000000000000000 101]\<rparr>,
          [LogDonationReceived 990000000000000000000000], [])
   \<and> Donation ''bob.donate.near'' 990000000000000000000000 101
       \<noteq> Donation ''alice.near'' 990000000000000000000000 100"
  by (simp add: send_donation_def on_donation_sent_def get_balance_def u128_add_def
      is_initialized_def get_factory_def PersistentSet_add_def Let_def
      example_env_def alice_ctx_def callback_ctx_def fresh_storage_def success_result_def)

text \<open>
  C2. With the contract initialized, the owner calling, and the amount at least the minimum
  and at most the balance, \<^verbatim>\<open>withdraw_donations\<close> returns with the balance already reduced
  by exactly the amount (no wrap-around) and the transfer only scheduled. On that storage
  \<^verbatim>\<open>on_donations_withdrawn\<close> with status 2 (failure) gives back exactly the storage before
  the withdrawal, and with status 1 (success) leaves the debited storage as it is.
\<close>

theorem withdrawal_debit_and_compensation:
  assumes "is_initialized s" and "is_owner ctx s"
    and "MIN_WITHDRAWAL_AMOUNT env \<le> amount"
    and "stored_balance s = Some b" and "amount \<le> b"
  shows "(\<exists>promises. withdraw_donations env ctx amount s =
            Inr (s\<lparr>stored_balance := Some (b - amount)\<rparr>, [], promises))
    \<and> unat (b - amount) = unat b - unat amount
    \<and> (status r = 2 \<longrightarrow>
         (\<exists>logs. on_donations_withdrawn ctx' amount (r # rs) (s\<lparr>stored_balance := Some (b - amount)\<rparr>)
                  = Inr (s, logs, [])))
    \<and> (status r = 1 \<longrightarrow>
         (\<exists>logs. on_donations_withdrawn ctx' amount (r # rs) (s\<lparr>stored_balance := Some (b - amount)\<rparr>)
                  = Inr (s\<lparr>stored_balance := Some (b - amount)\<rparr>, logs, [])))"
proof -
  let ?s1 = "s\<lparr>stored_balance := Some (b - amount)\<rparr>"
  have debit: "withdraw_donations env ctx amount s =
      Inr (?s1, [],
           [(predecessor ctx, Transfer amount),
            (contractName ctx,
             FunctionCall ''on_donations_withdrawn'' (DonationsWithdrawnArgs amount) 0 (XCC_GAS env))])"
    using assms by (simp add: withdraw_donations_def)
  have exact: "unat (b - amount) = unat b - unat amount"
    using assms(5) by (rule unat_sub_le)
  have owner: "stored_owner ?s1 \<noteq> None"
    using assms(1) by (simp add: is_initialized_def)
  have restored: "?s1\<lparr>stored_balance := Some (b - amount + amount)\<rparr> = s"
    using assms(4) by simp
  have fits: "unat (b - amount) + unat amount < 2 ^ 128"
    using exact assms(5) unsigned_less [of b] by (simp add: word_le_nat_alt)
  have failure: "status r = 2 \<Longrightarrow>
      on_donations_withdrawn ctx' amount (r # rs) ?s1 = Inr (s, [LogText ''Donation withdrawal failed''], [])"
    using on_donations_withdrawn_refund [of ?s1 "b - amount" r amount ctx' rs] owner restored fits
    by simp
  have success: "status r = 1 \<Longrightarrow>
      on_donations_withdrawn ctx' amount (r # rs) ?s1 = Inr (?s1, [LogDonationsWithdrawn amount], [])"
    by (simp add: on_donations_withdrawn_def)
  from debit exact failure success show ?thesis by blast
qed

text \<open>C2 at a withdrawal of 2 NEAR from a balance of 5 NEAR.\<close>

theorem withdrawal_debit_and_compensation_witness:
  "is_initialized funded_storage \<and> is_owner owner_ctx funded_storage
   \<and> MIN_WITHDRAWAL_AMOUNT example_env \<le> 2000000000000000000000000
   \<and> stored_balance funded_storage = Some 5000000000000000000000000
   \<and> (2000000000000000000000000 :: u128) \<le> 5000000000000000000000000
   \<and> (\<exists>promises. withdraw_donations example_env owner_ctx 2000000000000000000000000 funded_storage =
          Inr (funded_storage\<lparr>stored_balance := Some 3000000000000000000000000\<rparr>, [], promises))
   \<and> status failure_result = 2
   \<and> (\<exists>logs. on_donations_withdrawn callback_ctx 2000000000000000000000000 [failure_result]
              (funded_storage\<lparr>stored_balance := Some 3000000000000000000000000\<rparr>)
          = Inr (funded_storage, logs, []))
   \<and> status success_result = 1
   \<and> (\<exists>logs. on_donations_withdrawn callback_ctx 2000000000000000000000000 [success_result]
              (funded_storage\<lparr>stored_balance := Some 3000000000000000000000000\<rparr>)
          = Inr (funded_storage\<lparr>stored_balance := Some 3000000000000000000000000\<rparr>, logs, []))"
proof -
  have h1: "is_initialized funded_storage" by (simp add: is_initialized_def funded_storage_def)
  have h2: "is_owner owner_ctx funded_storage"
    by (simp add: is_owner_def funded_storage_def owner_ctx_def)
  have h3: "MIN_WITHDRAWAL_AMOUNT example_env \<le> 2000000000000000000000000"
    by (simp add: example_env_def)
  have h4: "stored_balance funded_storage = Some 5000000000000000000000000"
    by (simp add: funded_storage_def)
  have h5: "(2000000000000000000000000 :: u128) \<le> 5000000000000000000000000" by simp
  have h6: "status failure_result = 2" by (simp add: failure_result_def)
  have h7: "status success_result = 1" by (simp add: success_result_def)
  have d: "(5000000000000000000000000 :: u128) - 2000000000000000000000000 = 3000000000000000000000000"
    by simp
  note f = withdrawal_debit_and_compensation [OF h1 h2 h3 h4 h5, of failure_result callback_ctx "[]"]
  note g = withdrawal_debit_and_compensation [OF h1 h2 h3 h4 h5, of success_result callback_ctx "[]"]
  show ?thesis using h1 h2 h3 h4 h5 h6 h7 f g unfolding d by blast
qed

text \<open>
  C3. A callback whose first promise result carries any status other than its mutating one
  (1, success, for \<^verbatim>\<open>on_donation_sent\<close>; 2, failure, for \<^verbatim>\<open>on_donations_withdrawn\<close>)
  returns and leaves the whole storage, hence Balance and the donation collection, as it
  was: pending, the other terminal status and every unexpected code alike. In particular a
  failed fee-forward credits nothing and records nothing.
\<close>

theorem callbacks_other_status_no_change:
  "(status r \<noteq> 1 \<longrightarrow>
      (\<exists>logs. on_donation_sent ctx amount (r # rs) s = Inr (s, logs, []))
      \<and> storage_after s (on_donation_sent ctx amount (r # rs) s) = s)
   \<and> (status r' \<noteq> 2 \<longrightarrow>
      (\<exists>logs. on_donations_withdrawn ctx' amount' (r' # rs') s' = Inr (s', logs, []))
      \<and> storage_after s' (on_donations_withdrawn ctx' amount' (r' # rs') s') = s')"
  by (simp add: on_donation_sent_def on_donations_withdrawn_def)

text \<open>C3 at a failed fee-forward and at a successful transfer.\<close>

theorem callbacks_other_status_no_change_witness:
  "status failure_result \<noteq> 1
   \<and> (\<exists>logs. on_donation_sent callback_ctx 990000000000000000000000 [failure_result] funded_storage
               = Inr (funded_storage, logs, []))
   \<and> storage_after funded_storage
        (on_donation_sent callback_ctx 990000000000000000000000 [failure_result] funded_storage)
       = funded_storage
   \<and> status success_result \<noteq> 2
   \<and> (\<exists>logs. on_donations_withdrawn callback_ctx 1000000000000000000000000 [success_result] fresh_storage
               = Inr (fresh_storage, logs, []))
   \<and> storage_after fresh_storage
        (on_donations_withdrawn callback_ctx 1000000000000000000000000 [success_result] fresh_storage)
       = fresh_storage"
proof -
  have h1: "status failure_result \<noteq> 1" by (simp add: failure_result_def)
  have h2: "status success_result \<noteq> 2" by (simp add: success_result_def)
  show ?thesis
    using h1 h2
      callbacks_other_status_no_change [of failure_result callback_ctx 990000000000000000000000 "[]"
        funded_storage success_result callback_ctx 1000000000000000000000000 "[]" fresh_storage]
    by blast
qed

text \<open>
  C4. With the contract initialized, a deposit of at least the minimum donation and a nonzero
  fee divisor, \<^verbatim>\<open>send_donation\<close> attaches \<open>fee = deposit div divisor\<close> to the fee call and
  passes \<open>net = deposit - fee\<close> to the callback; read as numbers, \<open>fee + net = deposit\<close>
  and \<open>fee * divisor \<le> deposit\<close>, so the fee never exceeds \<open>deposit / divisor\<close>.
\<close>

theorem send_donation_fee_split:
  assumes "is_initialized s"
    and "MIN_DONATION_AMOUNT env \<le> attachedDeposit ctx"
    and "PLATFORM_FEE_DIVISOR env \<noteq> 0"
  shows "\<exists>fee net.
      send_donation env ctx s =
        Inr (s, [],
             [(get_factory ctx, FunctionCall ''deposit_fees'' EmptyArgs fee (XCC_GAS env)),
              (contractName ctx,
               FunctionCall ''on_donation_sent'' (DonationSentArgs net) 0 (XCC_GAS env))])
      \<and> unat fee = unat (attachedDeposit ctx) div unat (PLATFORM_FEE_DIVISOR env)
      \<and> unat net = unat (attachedDeposit ctx) - unat fee
      \<and> unat fee + unat net = unat (attachedDeposit ctx)
      \<and> unat fee * unat (PLATFORM_FEE_DIVISOR env) \<le> unat (attachedDeposit ctx)"
proof -
  let ?d = "attachedDeposit ctx" and ?k = "PLATFORM_FEE_DIVISOR env"
  let ?fee = "?d div ?k"
  let ?net = "?d - ?fee"
  have fee: "unat ?fee = unat ?d div unat ?k" by (simp add: unat_div)
  have le: "?fee \<le> ?d" by (rule fee_le)
  have net: "unat ?net = unat ?d - unat ?fee" using le by (rule unat_sub_le)
  have le': "unat ?fee \<le> unat ?d" using le by (simp add: word_le_nat_alt)
  have sum: "unat ?fee + unat ?net = unat ?d" using net le' by simp
  have bound: "unat ?fee * unat ?k \<le> unat ?d" unfolding fee by simp
  have sent: "send_donation env ctx s =
        Inr (s, [],
             [(get_factory ctx, FunctionCall ''deposit_fees'' EmptyArgs ?fee (XCC_GAS env)),
              (contractName ctx,
               FunctionCall ''on_donation_sent'' (DonationSentArgs ?net) 0 (XCC_GAS env))])"
    using assms by (simp add: send_donation_def Let_def)
  from sent fee net sum bound show ?thesis by blast
qed

text \<open>C4 at a donation of 1 NEAR with a fee of one hundredth.\<close>

theorem send_donation_fee_split_witness:
  "is_initialized fresh_storage
   \<and> MIN_DONATION_AMOUNT example_env \<le> attachedDeposit alice_ctx
   \<and> PLATFORM_FEE_DIVISOR example_env \<noteq> 0
   \<and> (\<exists>fee net.
      send_donation example_env alice_ctx fresh_storage =
        Inr (fresh_storage, [],
             [(get_factory alice_ctx, FunctionCall ''deposit_fees'' EmptyArgs fee (XCC_GAS example_env)),
              (contractName alice_ctx,
               FunctionCall ''on_donation_sent'' (DonationSentArgs net) 0 (XCC_GAS example_env))])
      \<and> unat fee = unat (attachedDeposit alice_ctx) div unat (PLATFORM_FEE_DIVISOR example_env)
      \<and> unat net = unat (attachedDeposit alice_ctx) - unat fee
      \<and> unat fee + unat net = unat (attachedDeposit alice_ctx)
      \<and> unat fee * unat (PLATFORM_FEE_DIVISOR example_env) \<le> unat (attachedDeposit alice_ctx))"
  using fresh_initialized alice_deposit_ok example_divisor
    send_donation_fee_split [OF fresh_initialized alice_deposit_ok example_divisor]
  by blast

text \<open>
  C5. Balance never goes negative. From every reachable storage, an invocation that
  returns is of one of four kinds. \<^verbatim>\<open>withdraw_donations\<close> returns only if the amount does
  not exceed the stored balance, and stores the exact difference, which is not negative.
  Every other invocation leaves a stored balance at least as large as it was: the callbacks
  leave it or store the exact sum with their amount (an overflowing sum aborts),
  \<^verbatim>\<open>init\<close> returns only when no balance is stored and stores zero, and
  \<^verbatim>\<open>send_donation\<close> leaves it. So \<^verbatim>\<open>withdraw_donations\<close> is the only operation that
  decreases the balance, and it checks first.
\<close>

theorem balance_never_negative:
  assumes "invoke env c (run env cs empty_storage) = Inr (s', logs, promises)"
  shows "(\<forall>ctx amount. c = WithdrawDonations ctx amount \<longrightarrow>
           (\<exists>b. stored_balance (run env cs empty_storage) = Some b \<and> amount \<le> b
              \<and> stored_balance s' = Some (b - amount)
              \<and> int (unat (b - amount)) = int (unat b) - int (unat amount)
              \<and> 0 \<le> int (unat b) - int (unat amount)))
    \<and> ((\<forall>ctx amount. c \<noteq> WithdrawDonations ctx amount) \<longrightarrow>
           (\<forall>b. stored_balance (run env cs empty_storage) = Some b \<longrightarrow>
              (\<exists>b'. stored_balance s' = Some b' \<and> unat b \<le> unat b')))
    \<and> (\<forall>ctx amount results.
           c = OnDonationSent ctx amount results \<or> c = OnDonationsWithdrawn ctx amount results \<longrightarrow>
           stored_balance s' = stored_balance (run env cs empty_storage)
           \<or> (\<exists>b. stored_balance (run env cs empty_storage) = Some b
                 \<and> stored_balance s' = Some (b + amount)
                 \<and> unat (b + amount) = unat b + unat amount))
    \<and> (\<forall>ctx owner. c = Init ctx owner \<longrightarrow>
           stored_balance (run env cs empty_storage) = None \<and> stored_balance s' = Some 0)
    \<and> (\<forall>ctx. c = SendDonation ctx \<longrightarrow>
           stored_balance s' = stored_balance (run env cs empty_storage))"
proof (cases c)
  case (Init ctx owner)
  have "\<not> is_initialized (run env cs empty_storage)"
    using assms Init by (auto simp: init_def split: if_splits)
  then have none: "stored_balance (run env cs empty_storage) = None"
    using reachable_balance_initialized [of env cs] by (cases "stored_balance (run env cs empty_storage)") auto
  have "stored_balance s' = Some 0"
    using assms Init by (auto simp: init_def split: if_splits)
  with none Init show ?thesis by simp
next
  case (SendDonation ctx)
  have "s' = run env cs empty_storage"
    using assms SendDonation by (auto simp: send_donation_def Let_def split: if_splits)
  with SendDonation show ?thesis by simp
next
  case (OnDonationSent ctx amount results)
  have "stored_balance s' = stored_balance (run env cs empty_storage)
        \<or> (\<exists>b. stored_balance (run env cs empty_storage) = Some b
              \<and> stored_balance s' = Some (b + amount)
              \<and> unat (b + amount) = unat b + unat amount)"
    using assms OnDonationSent
    by (auto simp: on_donation_sent_def get_balance_def u128_add_def unat_add_u128_exact
        split: list.splits if_splits option.splits)
  with OnDonationSent show ?thesis by auto
next
  case (WithdrawDonations ctx amount)
  have "\<exists>b. stored_balance (run env cs empty_storage) = Some b \<and> amount \<le> b
          \<and> stored_balance s' = Some (b - amount)"
    using assms WithdrawDonations
    by (auto simp: withdraw_donations_def split: if_splits option.splits)
  then obtain b where b: "stored_balance (run env cs empty_storage) = Some b" "amount \<le> b"
      "stored_balance s' = Some (b - amount)" by blast
  have le: "unat amount \<le> unat b" using b(2) by (simp add: word_le_nat_alt)
  have "unat (b - amount) = unat b - unat amount" using b(2) by (rule unat_sub_le)
  then have exact: "int (unat (b - amount)) = int (unat b) - int (unat amount)"
    using le by (simp only: of_nat_diff)
  have nonneg: "0 \<le> int (unat b) - int (unat amount)" using le by linarith
  from b exact nonneg WithdrawDonations show ?thesis by simp
next
  case (OnDonationsWithdrawn ctx amount results)
  have "stored_balance s' = stored_balance (run env cs empty_storage)
        \<or> (\<exists>b. stored_balance (run env cs empty_storage) = Some b
              \<and> stored_balance s' = Some (b + amount)
              \<and> unat (b + amount) = unat b + unat amount)"
    using assms OnDonationsWithdrawn
    by (auto simp: on_donations_withdrawn_def get_balance_def u128_add_def unat_add_u128_exact
        split: list.splits if_splits option.splits)
  with OnDonationsWithdrawn show ?thesis by auto
qed

text \<open>C5 at a withdrawal of 2 NEAR after an initialization and a credit of 5 NEAR, and at that credit.\<close>

theorem balance_never_negative_witness:
  "invoke example_env (WithdrawDonations owner_ctx 2000000000000000000000000)
     (run example_env
        [Init deploy_ctx ''bob.near'',
         OnDonationSent callback_ctx 5000000000000000000000000 [success_result]]
        empty_storage) =
     Inr (\<lparr>stored_owner = Some ''bob.near'', stored_balance = Some 3000000000000000000000000,
           donations = [Donation ''bob.donate.near'' 5000000000000000000000000 101]\<rparr>, [],
          [(''bob.near'', Transfer 2000000000000000000000000),
           (''bob.donate.near'',
            FunctionCall ''on_donations_withdrawn''
              (DonationsWithdrawnArgs 2000000000000000000000000) 0 20000000000000)])
   \<and> (\<exists>b. stored_balance
             (run example_env
                [Init deploy_ctx ''bob.near'',
                 OnDonationSent callback_ctx 5000000000000000000000000 [success_result]]
                empty_storage) = Some b
         \<and> 2000000000000000000000000 \<le> b
         \<and> 0 \<le> int (unat b) - int (unat (2000000000000000000000000 :: u128)))
   \<and> invoke example_env
        (OnDonationSent callback_ctx 5000000000000000000000000 [success_result])
        (run example_env [Init deploy_ctx ''bob.near''] empty_storage) =
       Inr (\<lparr>stored_owner = Some ''bob.near'', stored_balance = Some 5000000000000000000000000,
             donations = [Donation ''bob.donate.near'' 5000000000000000000000000 101]\<rparr>,
            [LogDonationReceived 5000000000000000000000000], [])
   \<and> (\<forall>ctx amount.
         OnDonationSent callback_ctx 5000000000000000000000000 [success_result]
           \<noteq> WithdrawDonations ctx amount)
   \<and> stored_balance (run example_env [Init deploy_ctx ''bob.near''] empty_storage) = Some 0
   \<and> (\<exists>b'. stored_balance
               \<lparr>stored_owner = Some ''bob.near'', stored_balance = Some 5000000000000000000000000,
                donations = [Donation ''bob.donate.near'' 5000000000000000000000000 101]\<rparr>
             = Some b'
           \<and> unat (0 :: u128) \<le> unat b')"
proof -
  have h: "invoke example_env (WithdrawDonations owner_ctx 2000000000000000000000000)
     (run example_env
        [Init deploy_ctx ''bob.near'',
         OnDonationSent callback_ctx 5000000000000000000000000 [success_result]]
        empty_storage) =
     Inr (\<lparr>stored_owner = Some ''bob.near'', stored_balance = Some 3000000000000000000000000,
           donations = [Donation ''bob.donate.near'' 5000000000000000000000000 101]\<rparr>, [],
          [(''bob.near'', Transfer 2000000000000000000000000),
           (''bob.donate.near'',
            FunctionCall ''on_donations_withdrawn''
              (DonationsWithdrawnArgs 2000000000000000000000000) 0 20000000000000)])"
    by (simp add: init_def on_donation_sent_def withdraw_donations_def get_balance_def
        u128_add_def is_initialized_def is_owner_def PersistentSet_add_def
        example_env_def deploy_ctx_def callback_ctx_def owner_ctx_def empty_storage_def
        success_result_def)
  have k: "invoke example_env
        (OnDonationSent callback_ctx 5000000000000000000000000 [success_result])
        (run example_env [Init deploy_ctx ''bob.near''] empty_storage) =
       Inr (\<lparr>stored_owner = Some ''bob.near'', stored_balance = Some 5000000000000000000000000,
             donations = [Donation ''bob.donate.near'' 5000000000000000000000000 101]\<rparr>,
            [LogDonationReceived 5000000000000000000000000], [])"
    by (simp add: init_def on_donation_sent_def get_balance_def
        u128_add_def is_initialized_def PersistentSet_add_def
        example_env_def deploy_ctx_def callback_ctx_def empty_storage_def success_result_def)
  have n: "\<forall>ctx amount.
      OnDonationSent callback_ctx 5000000000000000000000000 [success_result]
        \<noteq> WithdrawDonations ctx amount"
    by simp
  note a = balance_never_negative [OF h]
  note b = balance_never_negative [OF k]
  have first: "\<exists>b. stored_balance
             (run example_env
                [Init deploy_ctx ''bob.near'',
                 OnDonationSent callback_ctx 5000000000000000000000000 [success_result]]
                empty_storage) = Some b
         \<and> 2000000000000000000000000 \<le> b
         \<and> 0 \<le> int (unat b) - int (unat (2000000000000000000000000 :: u128))"
    using a by blast
  have zero: "stored_balance (run example_env [Init deploy_ctx ''bob.near''] empty_storage) = Some 0"
    by (simp add: init_def is_initialized_def example_env_def deploy_ctx_def empty_storage_def)
  have second: "\<exists>b'. stored_balance
               \<lparr>stored_owner = Some ''bob.near'', stored_balance = Some 5000000000000000000000000,
                donations = [Donation ''bob.donate.near'' 5000000000000000000000000 101]\<rparr>
             = Some b'
           \<and> unat (0 :: u128) \<le> unat b'"
    using b n zero by blast
  from h k n first zero second show ?thesis by blast
qed

text \<open>
  C6. \<^verbatim>\<open>send_donation\<close> never changes storage: whatever it returns, the storage after it
  is the storage before it, and with the contract initialized, the minimum donation attached
  and a nonzero fee divisor it returns with the storage untouched and only promises
  scheduled. The callback with a status other than success changes nothing either, so the
  success branch of \<^verbatim>\<open>on_donation_sent\<close> is the only credit of the donation flow.
\<close>

theorem send_donation_leaves_storage:
  "storage_after s (send_donation env ctx s) = s
   \<and> (is_initialized s \<and> MIN_DONATION_AMOUNT env \<le> attachedDeposit ctx
        \<and> PLATFORM_FEE_DIVISOR env \<noteq> 0 \<longrightarrow>
      (\<exists>promises. send_donation env ctx s = Inr (s, [], promises)))
   \<and> (status r \<noteq> 1 \<longrightarrow> storage_after s' (on_donation_sent ctx' amount (r # rs) s') = s')"
  by (simp add: send_donation_def on_donation_sent_def Let_def)

text \<open>C6 at a donation of 1 NEAR and a failed fee-forward.\<close>

theorem send_donation_leaves_storage_witness:
  "storage_after funded_storage (send_donation example_env alice_ctx funded_storage) = funded_storage
   \<and> is_initialized funded_storage
   \<and> MIN_DONATION_AMOUNT example_env \<le> attachedDeposit alice_ctx
   \<and> PLATFORM_FEE_DIVISOR example_env \<noteq> 0
   \<and> (\<exists>promises. send_donation example_env alice_ctx funded_storage = Inr (funded_storage, [], promises))
   \<and> status failure_result \<noteq> 1
   \<and> storage_after funded_storage
        (on_donation_sent callback_ctx 990000000000000000000000 [failure_result] funded_storage)
       = funded_storage"
proof -
  have h: "status failure_result \<noteq> 1" by (simp add: failure_result_def)
  show ?thesis
    using funded_initialized alice_deposit_ok example_divisor h
      send_donation_leaves_storage [of funded_storage example_env alice_ctx failure_result
        funded_storage callback_ctx 990000000000000000000000 "[]"]
    by blast
qed

text \<open>
  C7. \<^verbatim>\<open>withdraw_donations\<close> aborts, leaving storage unchanged, when the contract is not
  initialized, the caller is not the stored owner, the amount is below the minimum withdrawal
  or the amount exceeds the stored balance; when it returns, all four preconditions held and
  the only change is the debit of the balance slot; and when all four hold it returns.
\<close>

theorem withdraw_donations_preconditions:
  "((\<not> is_initialized s \<or> \<not> is_owner ctx s \<or> amount < MIN_WITHDRAWAL_AMOUNT env
      \<or> (\<exists>b. stored_balance s = Some b \<and> b < amount)) \<longrightarrow>
      (\<exists>e. withdraw_donations env ctx amount s = Inl e)
      \<and> storage_after s (withdraw_donations env ctx amount s) = s)
   \<and> (withdraw_donations env ctx amount s = Inr (s', logs, promises) \<longrightarrow>
      is_initialized s \<and> is_owner ctx s \<and> MIN_WITHDRAWAL_AMOUNT env \<le> amount
      \<and> (\<exists>b. stored_balance s = Some b \<and> amount \<le> b
              \<and> s' = s\<lparr>stored_balance := Some (b - amount)\<rparr>))
   \<and> (is_initialized s \<and> is_owner ctx s \<and> MIN_WITHDRAWAL_AMOUNT env \<le> amount
        \<and> (\<exists>b. stored_balance s = Some b \<and> amount \<le> b) \<longrightarrow>
      (\<exists>s'' promises'. withdraw_donations env ctx amount s = Inr (s'', [], promises')))"
  by (auto simp: withdraw_donations_def is_initialized_def split: option.splits if_splits)

text \<open>C7 at a withdrawal above the balance, one by a stranger, and one that passes.\<close>

theorem withdraw_donations_preconditions_witness:
  "(\<exists>b. stored_balance funded_storage = Some b \<and> b < 6000000000000000000000000)
   \<and> (\<exists>e. withdraw_donations example_env owner_ctx 6000000000000000000000000 funded_storage = Inl e)
   \<and> storage_after funded_storage
        (withdraw_donations example_env owner_ctx 6000000000000000000000000 funded_storage)
       = funded_storage
   \<and> \<not> is_owner mallory_ctx funded_storage
   \<and> (\<exists>e. withdraw_donations example_env mallory_ctx 2000000000000000000000000 funded_storage = Inl e)
   \<and> is_initialized funded_storage \<and> is_owner owner_ctx funded_storage
   \<and> MIN_WITHDRAWAL_AMOUNT example_env \<le> 2000000000000000000000000
   \<and> (\<exists>b. stored_balance funded_storage = Some b \<and> 2000000000000000000000000 \<le> b)
   \<and> (\<exists>s'' promises'. withdraw_donations example_env owner_ctx 2000000000000000000000000 funded_storage
          = Inr (s'', [], promises'))"
proof -
  have bal: "stored_balance funded_storage = Some 5000000000000000000000000"
    by (simp add: funded_storage_def)
  have h1: "\<exists>b. stored_balance funded_storage = Some b \<and> b < 6000000000000000000000000"
    using bal by simp
  have h2: "\<not> is_owner mallory_ctx funded_storage"
    by (simp add: is_owner_def mallory_ctx_def funded_storage_def)
  have h3: "is_owner owner_ctx funded_storage"
    by (simp add: is_owner_def owner_ctx_def funded_storage_def)
  have h4: "MIN_WITHDRAWAL_AMOUNT example_env \<le> 2000000000000000000000000"
    by (simp add: example_env_def)
  have h5: "\<exists>b. stored_balance funded_storage = Some b \<and> 2000000000000000000000000 \<le> b"
    using bal by simp
  note a = withdraw_donations_preconditions
    [of funded_storage owner_ctx 6000000000000000000000000 example_env]
  note b = withdraw_donations_preconditions
    [of funded_storage mallory_ctx 2000000000000000000000000 example_env]
  note c = withdraw_donations_preconditions
    [of funded_storage owner_ctx 2000000000000000000000000 example_env]
  show ?thesis using h1 h2 h3 h4 h5 funded_initialized a b c by blast
qed

text \<open>
  C8. \<^verbatim>\<open>init\<close> on storage that is not initialized, with the minimum account balance
  attached and a valid owner id, stores that owner and a zero balance, so that
  \<^verbatim>\<open>get_owner\<close> and \<^verbatim>\<open>get_balance\<close> then return them; after any later sequence of
  invocations every further \<^verbatim>\<open>init\<close> aborts. \<^verbatim>\<open>init\<close> aborts with storage unchanged when
  the contract is initialized, the deposit is too small or the owner id is invalid.
\<close>

theorem init_exactly_once:
  "(\<not> is_initialized s \<and> MIN_ACCOUNT_BALANCE env \<le> attachedDeposit ctx
      \<and> isValidAccountID env owner \<longrightarrow>
      (\<exists>logs. init env ctx owner s =
                Inr (s\<lparr>stored_owner := Some owner, stored_balance := Some 0\<rparr>, logs, []))
      \<and> get_owner (storage_after s (init env ctx owner s)) = Inr owner
      \<and> get_balance (storage_after s (init env ctx owner s)) = Inr 0
      \<and> init env ctx' owner' (run env cs (storage_after s (init env ctx owner s)))
          = Inl AlreadyInitialized)
   \<and> (is_initialized s \<or> attachedDeposit ctx < MIN_ACCOUNT_BALANCE env
        \<or> \<not> isValidAccountID env owner \<longrightarrow>
      (\<exists>e. init env ctx owner s = Inl e) \<and> storage_after s (init env ctx owner s) = s)
   \<and> (is_initialized s \<longrightarrow> init env ctx owner s = Inl AlreadyInitialized)"
proof -
  let ?s1 = "s\<lparr>stored_owner := Some owner, stored_balance := Some 0\<rparr>"
  have ok: "init env ctx owner s = Inr (?s1, [LogText ''donation account was created''], [])"
    if "\<not> is_initialized s" "MIN_ACCOUNT_BALANCE env \<le> attachedDeposit ctx" "isValidAccountID env owner"
    using that by (simp add: init_def)
  have i1: "is_initialized ?s1" by (simp add: is_initialized_def)
  have later: "init env ctx' owner' (run env cs ?s1) = Inl AlreadyInitialized"
    using run_initialized [OF i1, of env cs] by (simp add: init_def)
  have q1: "get_owner ?s1 = Inr owner" and q2: "get_balance ?s1 = Inr 0"
    by (simp_all add: get_owner_def get_balance_def is_initialized_def)
  have first: "\<not> is_initialized s \<and> MIN_ACCOUNT_BALANCE env \<le> attachedDeposit ctx
      \<and> isValidAccountID env owner \<longrightarrow>
      (\<exists>logs. init env ctx owner s = Inr (?s1, logs, []))
      \<and> get_owner (storage_after s (init env ctx owner s)) = Inr owner
      \<and> get_balance (storage_after s (init env ctx owner s)) = Inr 0
      \<and> init env ctx' owner' (run env cs (storage_after s (init env ctx owner s)))
          = Inl AlreadyInitialized"
    using ok later q1 q2 by auto
  have fails: "is_initialized s \<or> attachedDeposit ctx < MIN_ACCOUNT_BALANCE env
        \<or> \<not> isValidAccountID env owner \<longrightarrow>
      (\<exists>e. init env ctx owner s = Inl e) \<and> storage_after s (init env ctx owner s) = s"
    by (auto simp: init_def)
  have again: "is_initialized s \<longrightarrow> init env ctx owner s = Inl AlreadyInitialized"
    by (simp add: init_def)
  from first fails again show ?thesis by blast
qed

text \<open>C8 at a first initialization, a later one, and one with too small a deposit.\<close>

theorem init_exactly_once_witness:
  "\<not> is_initialized empty_storage
   \<and> MIN_ACCOUNT_BALANCE example_env \<le> attachedDeposit deploy_ctx
   \<and> isValidAccountID example_env ''bob.near''
   \<and> (\<exists>logs. init example_env deploy_ctx ''bob.near'' empty_storage =
                Inr (empty_storage\<lparr>stored_owner := Some ''bob.near'', stored_balance := Some 0\<rparr>,
                     logs, []))
   \<and> get_balance (storage_after empty_storage (init example_env deploy_ctx ''bob.near'' empty_storage))
       = Inr 0
   \<and> init example_env mallory_ctx ''mallory.near''
        (run example_env [SendDonation alice_ctx]
           (storage_after empty_storage (init example_env deploy_ctx ''bob.near'' empty_storage)))
       = Inl AlreadyInitialized
   \<and> attachedDeposit alice_ctx < MIN_ACCOUNT_BALANCE example_env
   \<and> (\<exists>e. init example_env alice_ctx ''bob.near'' empty_storage = Inl e)
   \<and> storage_after empty_storage (init example_env alice_ctx ''bob.near'' empty_storage) = empty_storage
   \<and> is_initialized fresh_storage
   \<and> init example_env deploy_ctx ''bob.near'' fresh_storage = Inl AlreadyInitialized"
proof -
  have h1: "\<not> is_initialized empty_storage" by (simp add: is_initialized_def empty_storage_def)
  have h2: "MIN_ACCOUNT_BALANCE example_env \<le> attachedDeposit deploy_ctx"
    by (simp add: example_env_def deploy_ctx_def)
  have h3: "isValidAccountID example_env ''bob.near''" by (simp add: example_env_def)
  have h4: "attachedDeposit alice_ctx < MIN_ACCOUNT_BALANCE example_env"
    by (simp add: example_env_def alice_ctx_def)
  note a = init_exactly_once [of empty_storage example_env deploy_ctx "''bob.near''"
    mallory_ctx "''mallory.near''" "[SendDonation alice_ctx]"]
  note b = init_exactly_once [of empty_storage example_env alice_ctx "''bob.near''"]
  note c = init_exactly_once [of fresh_storage example_env deploy_ctx "''bob.near''"]
  show ?thesis using h1 h2 h3 h4 fresh_initialized a b c by blast
qed

text \<open>
  C9. The donation collection is a set under equality of all three fields. When a
  successful callback has stored its record (its credit fits in 128 bits) and a second
  successful callback carries the same donor, amount and timestamp, whatever was invoked
  between them, the collection after the second is the collection before it and holds the
  record exactly once; and the second returns, storing nothing new, whenever its own credit
  fits.
\<close>

theorem donation_set_collapses_equal_records:
  assumes "is_initialized s" and "distinct (donations s)"
    and "status r = 1" and "status r' = 1"
    and "predecessor ctx' = predecessor ctx" and "blockTimestamp ctx' = blockTimestamp ctx"
    and "stored_balance s = Some b" and "unat b + unat amount < 2 ^ 128"
  shows "\<exists>s1 logs.
      on_donation_sent ctx amount (r # rs) s = Inr (s1, logs, [])
      \<and> count_list (donations s1) (Donation (predecessor ctx) amount (blockTimestamp ctx)) = 1
      \<and> donations (storage_after (run env cs s1)
                     (on_donation_sent ctx' amount (r' # rs') (run env cs s1)))
          = donations (run env cs s1)
      \<and> count_list
           (donations (storage_after (run env cs s1)
                         (on_donation_sent ctx' amount (r' # rs') (run env cs s1))))
           (Donation (predecessor ctx) amount (blockTimestamp ctx)) = 1
      \<and> (\<forall>b2. stored_balance (run env cs s1) = Some b2 \<and> unat b2 + unat amount < 2 ^ 128 \<longrightarrow>
            (\<exists>s3 logs'. on_donation_sent ctx' amount (r' # rs') (run env cs s1) = Inr (s3, logs', [])
                         \<and> donations s3 = donations (run env cs s1)))"
proof -
  let ?d = "Donation (predecessor ctx) amount (blockTimestamp ctx)"
  have o: "stored_owner s \<noteq> None" using assms(1) by (simp add: is_initialized_def)
  let ?s1 = "s\<lparr>stored_balance := Some (b + amount),
               donations := PersistentSet_add ?d (donations s)\<rparr>"
  have first: "on_donation_sent ctx amount (r # rs) s = Inr (?s1, [LogDonationReceived amount], [])"
    using on_donation_sent_credit [OF o assms(7) assms(3) assms(8)] .
  have mem1: "?d \<in> set (donations ?s1)" by (simp add: PersistentSet_add_def)
  have dist1: "distinct (donations ?s1)" using assms(2) by (simp add: PersistentSet_add_def)
  have init1: "is_initialized ?s1" using o by (simp add: is_initialized_def)
  let ?s2 = "run env cs ?s1"
  have mem2: "?d \<in> set (donations ?s2)" using mem1 by (rule run_keeps_donation)
  have dist2: "distinct (donations ?s2)" using dist1 by (rule run_distinct)
  have init2: "is_initialized ?s2" using init1 by (rule run_initialized)
  have o2: "stored_owner ?s2 \<noteq> None" using init2 by (simp add: is_initialized_def)
  have idem: "PersistentSet_add ?d (donations ?s2) = donations ?s2"
    using mem2 by (simp add: PersistentSet_add_def)
  have same: "donations (storage_after ?s2 (on_donation_sent ctx' amount (r' # rs') ?s2))
      = donations ?s2"
    using on_donation_sent_donations [of ?s2 ctx' amount "r' # rs'"] assms(5,6) idem by auto
  have c1: "count_list (donations ?s1) ?d = 1" using dist1 mem1 by (rule count_list_distinct)
  have c3: "count_list (donations (storage_after ?s2 (on_donation_sent ctx' amount (r' # rs') ?s2))) ?d = 1"
    unfolding same using dist2 mem2 by (rule count_list_distinct)
  have second: "\<forall>b2. stored_balance ?s2 = Some b2 \<and> unat b2 + unat amount < 2 ^ 128 \<longrightarrow>
      (\<exists>s3 logs'. on_donation_sent ctx' amount (r' # rs') ?s2 = Inr (s3, logs', [])
                   \<and> donations s3 = donations ?s2)"
  proof (intro allI impI)
    fix b2 assume h: "stored_balance ?s2 = Some b2 \<and> unat b2 + unat amount < 2 ^ 128"
    have "on_donation_sent ctx' amount (r' # rs') ?s2 =
        Inr (?s2\<lparr>stored_balance := Some (b2 + amount),
                  donations := PersistentSet_add ?d (donations ?s2)\<rparr>,
             [LogDonationReceived amount], [])"
      using on_donation_sent_credit [OF o2 _ assms(4), of b2 amount ctx' rs'] h assms(5,6) by simp
    then show "\<exists>s3 logs'. on_donation_sent ctx' amount (r' # rs') ?s2 = Inr (s3, logs', [])
                   \<and> donations s3 = donations ?s2"
      using idem by simp
  qed
  from first c1 same c3 second show ?thesis by blast
qed

text \<open>C9 at two confirmations in the same block for the same net amount.\<close>

theorem donation_set_collapses_equal_records_witness:
  "is_initialized fresh_storage \<and> distinct (donations fresh_storage)
   \<and> status success_result = 1
   \<and> stored_balance fresh_storage = Some 0
   \<and> unat (0 :: u128) + unat (990000000000000000000000 :: u128) < 2 ^ 128
   \<and> (\<exists>s1 logs.
      on_donation_sent callback_ctx 990000000000000000000000 [success_result] fresh_storage
        = Inr (s1, logs, [])
      \<and> count_list (donations s1)
          (Donation (predecessor callback_ctx) 990000000000000000000000 (blockTimestamp callback_ctx)) = 1
      \<and> donations (storage_after (run example_env [SendDonation alice_ctx] s1)
                     (on_donation_sent callback_ctx 990000000000000000000000 [success_result]
                        (run example_env [SendDonation alice_ctx] s1)))
          = donations (run example_env [SendDonation alice_ctx] s1)
      \<and> count_list
           (donations (storage_after (run example_env [SendDonation alice_ctx] s1)
                     (on_donation_sent callback_ctx 990000000000000000000000 [success_result]
                        (run example_env [SendDonation alice_ctx] s1))))
           (Donation (predecessor callback_ctx) 990000000000000000000000 (blockTimestamp callback_ctx))
          = 1)"
proof -
  have h1: "distinct (donations fresh_storage)" by (simp add: fresh_storage_def)
  have h2: "status success_result = 1" by (simp add: success_result_def)
  have h3: "stored_balance fresh_storage = Some 0" by (simp add: fresh_storage_def)
  have h4: "unat (0 :: u128) + unat (990000000000000000000000 :: u128) < 2 ^ 128" by simp
  note a = donation_set_collapses_equal_records
    [where s = fresh_storage and r = success_result and r' = success_result
       and ctx = callback_ctx and ctx' = callback_ctx and b = 0
       and amount = 990000000000000000000000 and rs = "[]" and rs' = "[]"
       and env = example_env and cs = "[SendDonation alice_ctx]",
     OF fresh_initialized h1 h2 h2 refl refl h3 h4]
  show ?thesis using fresh_initialized h1 h2 h3 h4 a by blast
qed

text \<open>
  C10, as amended. Neither callback looks at who invokes it. On initialized storage, for
  every context, \<^verbatim>\<open>on_donations_withdrawn\<close> with a first promise result of status 2
  (failure) returns with the balance increased by exactly the amount when the sum fits in
  128 bits and aborts when it does not; \<^verbatim>\<open>on_donation_sent\<close> with status 1 (success) returns
  with the same credit and the invoking predecessor recorded as the donor, or aborts in the
  same way. An invocation with no promise result aborts at \<^verbatim>\<open>results[0]\<close>. The outcome of
  \<^verbatim>\<open>on_donations_withdrawn\<close> does not depend on the context at all, that of
  \<^verbatim>\<open>on_donation_sent\<close> only through the predecessor and block timestamp it records.
\<close>

theorem callbacks_accept_any_caller:
  assumes "is_initialized s"
  shows "\<exists>b. stored_balance s = Some b
    \<and> (status r = 2 \<and> unat b + unat amount < 2 ^ 128 \<longrightarrow>
         on_donations_withdrawn ctx amount (r # rs) s =
           Inr (s\<lparr>stored_balance := Some (b + amount)\<rparr>,
                [LogText ''Donation withdrawal failed''], [])
         \<and> unat (b + amount) = unat b + unat amount)
    \<and> (status r = 2 \<and> \<not> unat b + unat amount < 2 ^ 128 \<longrightarrow>
         on_donations_withdrawn ctx amount (r # rs) s = Inl Overflow)
    \<and> (status r' = 1 \<and> unat b + unat amount < 2 ^ 128 \<longrightarrow>
         on_donation_sent ctx amount (r' # rs') s =
           Inr (s\<lparr>stored_balance := Some (b + amount),
                  donations :=
                    PersistentSet_add (Donation (predecessor ctx) amount (blockTimestamp ctx))
                      (donations s)\<rparr>,
                [LogDonationReceived amount], [])
         \<and> unat (b + amount) = unat b + unat amount)
    \<and> (status r' = 1 \<and> \<not> unat b + unat amount < 2 ^ 128 \<longrightarrow>
         on_donation_sent ctx amount (r' # rs') s = Inl Overflow)
    \<and> on_donations_withdrawn ctx amount [] s = Inl IndexOutOfRange
    \<and> on_donation_sent ctx amount [] s = Inl IndexOutOfRange
    \<and> on_donations_withdrawn ctx amount results s = on_donations_withdrawn ctx' amount results s
    \<and> (predecessor ctx' = predecessor ctx \<and> blockTimestamp ctx' = blockTimestamp ctx \<longrightarrow>
         on_donation_sent ctx amount results s = on_donation_sent ctx' amount results s)"
proof -
  obtain b where b: "stored_balance s = Some b" and o: "stored_owner s \<noteq> None"
    using assms by (auto simp: is_initialized_def)
  have refund: "status r = 2 \<and> unat b + unat amount < 2 ^ 128 \<longrightarrow>
         on_donations_withdrawn ctx amount (r # rs) s =
           Inr (s\<lparr>stored_balance := Some (b + amount)\<rparr>,
                [LogText ''Donation withdrawal failed''], [])
         \<and> unat (b + amount) = unat b + unat amount"
    using on_donations_withdrawn_refund [OF o b] unat_add_u128_exact by blast
  have refund_abort: "status r = 2 \<and> \<not> unat b + unat amount < 2 ^ 128 \<longrightarrow>
         on_donations_withdrawn ctx amount (r # rs) s = Inl Overflow"
    using on_donations_withdrawn_overflow [OF o b] by blast
  have credit: "status r' = 1 \<and> unat b + unat amount < 2 ^ 128 \<longrightarrow>
         on_donation_sent ctx amount (r' # rs') s =
           Inr (s\<lparr>stored_balance := Some (b + amount),
                  donations :=
                    PersistentSet_add (Donation (predecessor ctx) amount (blockTimestamp ctx))
                      (donations s)\<rparr>,
                [LogDonationReceived amount], [])
         \<and> unat (b + amount) = unat b + unat amount"
    using on_donation_sent_credit [OF o b] unat_add_u128_exact by blast
  have credit_abort: "status r' = 1 \<and> \<not> unat b + unat amount < 2 ^ 128 \<longrightarrow>
         on_donation_sent ctx amount (r' # rs') s = Inl Overflow"
    using on_donation_sent_overflow [OF o b] by blast
  have direct: "on_donations_withdrawn ctx amount [] s = Inl IndexOutOfRange"
      "on_donation_sent ctx amount [] s = Inl IndexOutOfRange"
    by (simp_all add: on_donations_withdrawn_def on_donation_sent_def)
  have any: "on_donations_withdrawn ctx amount results s = on_donations_withdrawn ctx' amount results s"
    by (simp add: on_donations_withdrawn_def)
  have same: "predecessor ctx' = predecessor ctx \<and> blockTimestamp ctx' = blockTimestamp ctx \<longrightarrow>
         on_donation_sent ctx amount results s = on_donation_sent ctx' amount results s"
    by (auto simp: on_donation_sent_def split: list.splits sum.splits)
  from b refund refund_abort credit credit_abort direct any same show ?thesis by blast
qed

text \<open>C10 at calls by a stranger, \<^verbatim>\<open>mallory.near\<close>, for 1 NEAR and for \<open>2 ^ 128 - 1\<close>.\<close>

theorem callbacks_accept_any_caller_witness:
  "is_initialized funded_storage
   \<and> status failure_result = 2 \<and> status success_result = 1
   \<and> (\<exists>b. stored_balance funded_storage = Some b
      \<and> unat b + unat (1000000000000000000000000 :: u128) < 2 ^ 128
      \<and> \<not> unat b + unat (340282366920938463463374607431768211455 :: u128) < 2 ^ 128
      \<and> on_donations_withdrawn mallory_ctx 1000000000000000000000000 [failure_result] funded_storage =
           Inr (funded_storage\<lparr>stored_balance := Some (b + 1000000000000000000000000)\<rparr>,
                [LogText ''Donation withdrawal failed''], [])
      \<and> on_donation_sent mallory_ctx 1000000000000000000000000 [success_result] funded_storage =
           Inr (funded_storage\<lparr>stored_balance := Some (b + 1000000000000000000000000),
                  donations :=
                    PersistentSet_add
                      (Donation (predecessor mallory_ctx) 1000000000000000000000000
                         (blockTimestamp mallory_ctx))
                      (donations funded_storage)\<rparr>,
                [LogDonationReceived 1000000000000000000000000], [])
      \<and> on_donations_withdrawn mallory_ctx 340282366920938463463374607431768211455
           [failure_result] funded_storage = Inl Overflow
      \<and> on_donation_sent mallory_ctx 340282366920938463463374607431768211455
           [success_result] funded_storage = Inl Overflow)"
proof -
  have h1: "status failure_result = 2" by (simp add: failure_result_def)
  have h2: "status success_result = 1" by (simp add: success_result_def)
  have bal: "stored_balance funded_storage = Some 5000000000000000000000000"
    by (simp add: funded_storage_def)
  have fits: "unat (5000000000000000000000000 :: u128) + unat (1000000000000000000000000 :: u128)
      < 2 ^ 128" by simp
  have over: "\<not> unat (5000000000000000000000000 :: u128)
      + unat (340282366920938463463374607431768211455 :: u128) < 2 ^ 128" by simp
  note a = callbacks_accept_any_caller
    [where s = funded_storage and r = failure_result and r' = success_result
       and amount = 1000000000000000000000000 and ctx = mallory_ctx and rs = "[]" and rs' = "[]",
     OF funded_initialized]
  note c = callbacks_accept_any_caller
    [where s = funded_storage and r = failure_result and r' = success_result
       and amount = 340282366920938463463374607431768211455 and ctx = mallory_ctx
       and rs = "[]" and rs' = "[]",
     OF funded_initialized]
  have small: "on_donations_withdrawn mallory_ctx 1000000000000000000000000 [failure_result] funded_storage =
           Inr (funded_storage\<lparr>stored_balance := Some (5000000000000000000000000 + 1000000000000000000000000)\<rparr>,
                [LogText ''Donation withdrawal failed''], [])
      \<and> on_donation_sent mallory_ctx 1000000000000000000000000 [success_result] funded_storage =
           Inr (funded_storage\<lparr>stored_balance := Some (5000000000000000000000000 + 1000000000000000000000000),
                  donations :=
                    PersistentSet_add
                      (Donation (predecessor mallory_ctx) 1000000000000000000000000
                         (blockTimestamp mallory_ctx))
                      (donations funded_storage)\<rparr>,
                [LogDonationReceived 1000000000000000000000000], [])"
    using a h1 h2 bal fits by auto
  have large: "on_donations_withdrawn mallory_ctx 340282366920938463463374607431768211455
           [failure_result] funded_storage = Inl Overflow
      \<and> on_donation_sent mallory_ctx 340282366920938463463374607431768211455
           [success_result] funded_storage = Inl Overflow"
    using c h1 h2 bal over by auto
  from funded_initialized h1 h2 bal fits over small large show ?thesis by blast
qed

text \<open>
  C10 as stated fails where the sum overflows: on a balance of 5 NEAR a stranger's
  callbacks with amount \<open>2 ^ 128 - 1\<close> and the mutating status abort and leave storage
  unchanged, where the claim has them succeed and increase the balance. Invoked with no
  promise result, both abort as well.
\<close>

theorem callbacks_accept_any_caller_counterexample:
  "is_initialized funded_storage \<and> status failure_result = 2 \<and> status success_result = 1
   \<and> on_donations_withdrawn mallory_ctx 340282366920938463463374607431768211455 [failure_result]
       funded_storage = Inl Overflow
   \<and> on_donation_sent mallory_ctx 340282366920938463463374607431768211455 [success_result]
       funded_storage = Inl Overflow
   \<and> storage_after funded_storage
       (on_donations_withdrawn mallory_ctx 340282366920938463463374607431768211455 [failure_result]
          funded_storage) = funded_storage
   \<and> on_donations_withdrawn mallory_ctx 1000000000000000000000000 [] funded_storage
       = Inl IndexOutOfRange
   \<and> on_donation_sent mallory_ctx 1000000000000000000000000 [] funded_storage
       = Inl IndexOutOfRange"
  by (simp add: on_donations_withdrawn_def on_donation_sent_def get_balance_def u128_add_def
      is_initialized_def mallory_ctx_def funded_storage_def failure_result_def success_result_def)

end
